theory Spec2Isabelle
  imports Main "HOL-Library.Word" "HOL-Library.Multiset"
begin

section \<open>The export command of the sector recovery tool\<close>

text \<open>
  A shallow embedding of \<^verbatim>\<open>src/export/export.go\<close>: the action of \<^verbatim>\<open>ExportCmd\<close>
  and the \<^verbatim>\<open>sort.Interface\<close> methods of \<^verbatim>\<open>SectorInfos\<close>.  The chain node, the
  address library, the serialisers and the file system are collaborators of the
  command; they are gathered in the record \<open>world\<close>, one field per call the
  command makes, so that every theorem holds for whatever they answer.
\<close>

subsection \<open>Data\<close>

type_synonym uint64 = "64 word"
type_synonym int64 = "64 word"  \<comment> \<open>two's complement: compared with \<open><s\<close>, read with \<open>sint\<close>\<close>
type_synonym go_int = "64 word"  \<comment> \<open>Go's \<^verbatim>\<open>int\<close> on a 64-bit platform\<close>
type_synonym bytes = "8 word list"

text \<open>A Go \<^verbatim>\<open>error\<close> value: one produced by a collaborator, or one wrapped by
  \<^verbatim>\<open>xerrors.Errorf\<close> with the message of the call site.\<close>

datatype go_error = Failure string | Errorf string go_error

text \<open>The result of running code that may dereference a nil pointer (the randomness
  loop, through \<^verbatim>\<open>ts.Key()\<close>).\<close>

datatype 'a run = Panic | Ran 'a

type_synonym address = string
type_synonym cid = string
type_synonym TipSetKey = "cid list"
type_synonym abi_Randomness = "bytes option"  \<comment> \<open>a byte slice; \<open>None\<close> is the nil slice\<close>

definition EmptyTSK :: TipSetKey where
  "EmptyTSK = []"

datatype DomainSeparationTag =
  DomainSeparationTag_SealRandomness | DomainSeparationTag_InteractiveSealChallengeSeed

record TipSet =
  ts_cids :: "cid list"
  ts_height :: int64

record MinerInfo =
  mi_SectorSize :: uint64

record SectorOnChainInfo =
  soci_SealProof :: int64
  soci_Activation :: int64
  soci_SealedCID :: cid

record SectorPreCommitInfo =
  spci_SealProof :: int64
  spci_SealedCID :: cid

record SectorPreCommitOnChainInfo =
  Info :: SectorPreCommitInfo
  PreCommitEpoch :: int64

text \<open>\<^verbatim>\<open>type SectorInfo struct\<close>, lines 149 to 155.\<close>

record SectorInfo =
  SectorNumber :: uint64
  Activation :: int64
  Ticket :: abi_Randomness
  SealProof :: int64
  SealedCID :: cid

text \<open>\<^verbatim>\<open>type SectorInfos []*SectorInfo\<close>.  Every element is allocated by its own
  composite literal in the classification loop, so no two elements alias and the
  slice of pointers is a list of values updated in place.\<close>

type_synonym SectorInfos = "SectorInfo list"

text \<open>\<^verbatim>\<open>type RecoveryParams struct\<close>, lines 143 to 147.\<close>

record RecoveryParams =
  Miner :: address
  SectorSize :: uint64
  SectorInfos :: SectorInfos

text \<open>The lines written by \<^verbatim>\<open>log.Errorf\<close>, one constructor per call site.\<close>

datatype log_entry =
  Log_StateSectorGetInfo go_int go_error
  | Log_StateSectorPreCommitInfo go_int go_error
  | Log_Randomness uint64 go_error

subsection \<open>The collaborators\<close>

text \<open>
  A call that returns \<^verbatim>\<open>(value, error)\<close> and whose error the command checks before it
  touches the value is a sum, \<open>Inl\<close> the error.  \<^verbatim>\<open>ChainGetTipSetByHeight\<close> returns the
  pair itself, because the command reads the tipset without looking at the error.
  A pointer result is an \<open>option\<close>, \<open>None\<close> the nil pointer.  \<open>TipSet_Key\<close> is the
  method \<^verbatim>\<open>(*TipSet).Key\<close> of the chain library; \<open>None\<close> is a nil dereference inside
  it.  Each query is a function of its arguments.

  \<^verbatim>\<open>StateSectorGetInfo\<close> returns a pointer, which the action tests against nil
  (line 69).  \<^verbatim>\<open>StateSectorPreCommitInfo\<close> returns its record by value: an answer without
  error always carries a record, at worst the record of zero values, and the action
  reads its fields without any test (lines 79 to 81).
\<close>

record world =
  NewFromString :: "string \<Rightarrow> go_error + address"
  address_String :: "address \<Rightarrow> string"
  MarshalCBOR :: "address \<Rightarrow> go_error + bytes"
  GetFullNodeAPI :: "go_error option"
  StateMinerInfo :: "address \<Rightarrow> TipSetKey \<Rightarrow> go_error + MinerInfo"
  StateSectorGetInfo ::
    "address \<Rightarrow> uint64 \<Rightarrow> TipSetKey \<Rightarrow> go_error + SectorOnChainInfo option"
  StateSectorPreCommitInfo ::
    "address \<Rightarrow> uint64 \<Rightarrow> TipSetKey \<Rightarrow> go_error + SectorPreCommitOnChainInfo"
  ChainGetTipSetByHeight :: "int64 \<Rightarrow> TipSetKey \<Rightarrow> TipSet option \<times> go_error option"
  TipSet_Key :: "TipSet option \<Rightarrow> TipSetKey option"
  StateGetRandomnessFromTickets ::
    "DomainSeparationTag \<Rightarrow> int64 \<Rightarrow> bytes \<Rightarrow> TipSetKey \<Rightarrow> go_error + abi_Randomness"
  MarshalIndent :: "RecoveryParams \<Rightarrow> go_error + bytes"
  homedir_Expand :: "string \<Rightarrow> go_error + string"
  WriteFile :: "string \<Rightarrow> bytes \<Rightarrow> go_error option"

subsection \<open>The local variables of the action\<close>

record locals =
  sectorInfos :: SectorInfos
  failtSectors :: "uint64 list"
  tsk :: TipSetKey
  logged :: "log_entry list"

text \<open>What a run that returns leaves behind: the log, the value of the local
  \<^verbatim>\<open>output\<close> if line 117 was reached, the file written, and the summary printed
  (number of sectors, failed sectors, elapsed time).\<close>

record effects =
  stderr :: "log_entry list"
  assembled :: "RecoveryParams option"
  written :: "(string \<times> bytes) option"
  stdout :: "(nat \<times> uint64 list \<times> int) option"

datatype outcome = Crash | Return "go_error option" effects

subsection \<open>Conversions\<close>

text \<open>\<^verbatim>\<open>abi.SectorNumber(sector)\<close> and \<^verbatim>\<open>uint64(sector)\<close>: an \<^verbatim>\<open>int\<close> converted to an
  unsigned 64-bit integer, its value taken modulo \<open>2 ^ 64\<close>.\<close>

definition abi_SectorNumber :: "go_int \<Rightarrow> uint64" where
  "abi_SectorNumber sector = word_of_int (sint sector)"

subsection \<open>The methods of \<^verbatim>\<open>SectorInfos\<close>, lines 159 to 169\<close>

definition Len :: "SectorInfos \<Rightarrow> nat" where
  "Len t = length t"

definition Swap :: "SectorInfos \<Rightarrow> nat \<Rightarrow> nat \<Rightarrow> SectorInfos" where
  "Swap t i j = t[i := t ! j, j := t ! i]"

definition Less :: "SectorInfos \<Rightarrow> nat \<Rightarrow> nat \<Rightarrow> bool" where
  "Less t i j =
     (if Activation (t ! i) \<noteq> Activation (t ! j)
      then Activation (t ! j) <s Activation (t ! i)
      else SectorNumber (t ! i) < SectorNumber (t ! j))"

text \<open>
  \<^verbatim>\<open>sort.Sort\<close> belongs to Go's standard library.  It is modelled by insertion sort
  written over \<open>Len\<close>, \<open>Less\<close> and \<open>Swap\<close> alone, with indices inside the slice: the
  loop the library runs on a slice of at most twelve elements,
  \<^verbatim>\<open>for i := a + 1; i < b; i++ { for j := i; j > a && data.Less(j, j-1); j-- { data.Swap(j, j-1) } }\<close>.
\<close>

fun insertionSort_inner :: "SectorInfos \<Rightarrow> nat \<Rightarrow> SectorInfos" where
  "insertionSort_inner t 0 = t"
| "insertionSort_inner t (Suc j) =
     (if Less t (Suc j) j then insertionSort_inner (Swap t (Suc j) j) j else t)"

definition sort_Sort :: "SectorInfos \<Rightarrow> SectorInfos" where
  "sort_Sort t = fold (\<lambda>i t'. insertionSort_inner t' i) [1..<Len t] t"

subsection \<open>The classification loop, lines 61 to 92\<close>

definition classify_body :: "world \<Rightarrow> address \<Rightarrow> go_int \<Rightarrow> locals \<Rightarrow> locals" where
  "classify_body w maddr sector st =
     (case StateSectorGetInfo w maddr (abi_SectorNumber sector) EmptyTSK of
        Inl err \<Rightarrow>
          st\<lparr>logged := logged st @ [Log_StateSectorGetInfo sector err],
              failtSectors := failtSectors st @ [abi_SectorNumber sector]\<rparr>
      | Inr None \<Rightarrow>
          (case StateSectorPreCommitInfo w maddr (abi_SectorNumber sector) EmptyTSK of
             Inl err \<Rightarrow>
               st\<lparr>logged := logged st @ [Log_StateSectorPreCommitInfo sector err],
                   failtSectors := failtSectors st @ [abi_SectorNumber sector]\<rparr>
           | Inr preCommitInfo \<Rightarrow>
               st\<lparr>sectorInfos := sectorInfos st @
                 [\<lparr>SectorNumber = abi_SectorNumber sector,
                   Activation = PreCommitEpoch preCommitInfo,
                   Ticket = None,
                   SealProof = spci_SealProof (Info preCommitInfo),
                   SealedCID = spci_SealedCID (Info preCommitInfo)\<rparr>]\<rparr>)
      | Inr (Some si) \<Rightarrow>
          st\<lparr>sectorInfos := sectorInfos st @
            [\<lparr>SectorNumber = abi_SectorNumber sector,
              Activation = soci_Activation si,
              Ticket = None,
              SealProof = soci_SealProof si,
              SealedCID = soci_SealedCID si\<rparr>]\<rparr>)"

fun classify_loop :: "world \<Rightarrow> address \<Rightarrow> go_int list \<Rightarrow> locals \<Rightarrow> locals" where
  "classify_loop w maddr [] st = st"
| "classify_loop w maddr (sector # rest) st =
     classify_loop w maddr rest (classify_body w maddr sector st)"

subsection \<open>The randomness loop, lines 103 to 115\<close>

text \<open>One iteration, for the element at index \<open>i\<close> of the slice.  The error of the
  tipset lookup is assigned and never read; \<^verbatim>\<open>tsk = ts.Key()\<close> runs in every case.\<close>

definition ticket_body :: "world \<Rightarrow> bytes \<Rightarrow> nat \<Rightarrow> locals \<Rightarrow> locals run" where
  "ticket_body w buf i st =
     (let sectorInfo = sectorInfos st ! i;
          (ts, err) = ChainGetTipSetByHeight w (Activation sectorInfo) (tsk st)
      in case TipSet_Key w ts of
           None \<Rightarrow> Panic
         | Some k \<Rightarrow>
             (case StateGetRandomnessFromTickets w DomainSeparationTag_SealRandomness
                     (Activation sectorInfo) buf k of
                Inl err' \<Rightarrow>
                  Ran (st\<lparr>tsk := k,
                           logged := logged st @ [Log_Randomness (SectorNumber sectorInfo) err'],
                           failtSectors := failtSectors st @ [SectorNumber sectorInfo]\<rparr>)
              | Inr ticket \<Rightarrow>
                  Ran (st\<lparr>tsk := k,
                           sectorInfos := (sectorInfos st)[i := sectorInfo\<lparr>Ticket := ticket\<rparr>]\<rparr>)))"

fun ticket_loop :: "world \<Rightarrow> bytes \<Rightarrow> nat list \<Rightarrow> locals \<Rightarrow> locals run" where
  "ticket_loop w buf [] st = Ran st"
| "ticket_loop w buf (i # rest) st =
     (case ticket_body w buf i st of
        Panic \<Rightarrow> Panic
      | Ran st' \<Rightarrow> ticket_loop w buf rest st')"

subsection \<open>Building and writing the record, lines 117 to 139\<close>

definition emit :: "world \<Rightarrow> int \<Rightarrow> int \<Rightarrow> address \<Rightarrow> MinerInfo \<Rightarrow> locals \<Rightarrow> outcome" where
  "emit w t_start t_end maddr mi st =
     (let out_rec = \<lparr>Miner = maddr, SectorSize = mi_SectorSize mi,
                      SectorInfos = sectorInfos st\<rparr>;
          eff = \<lparr>stderr = logged st, assembled = Some out_rec, written = None, stdout = None\<rparr>
      in case MarshalIndent w out_rec of
           Inl err \<Rightarrow> Return (Some err) eff
         | Inr out \<Rightarrow>
             (case homedir_Expand w
                     (''sectors-recovery-'' @ address_String w maddr @ ''.json'') of
                Inl err \<Rightarrow> Return (Some err) eff
              | Inr ofile \<Rightarrow>
                  (case WriteFile w ofile out of
                     Some err \<Rightarrow> Return (Some err) eff
                   | None \<Rightarrow>
                       Return None
                         (eff\<lparr>written := Some (ofile, out),
                               stdout := Some (Len (sectorInfos st), failtSectors st,
                                               t_end - t_start)\<rparr>))))"

subsection \<open>The action, lines 38 to 140\<close>

definition no_effects :: effects where
  "no_effects = \<lparr>stderr = [], assembled = None, written = None, stdout = None\<rparr>"

definition Action :: "world \<Rightarrow> int \<Rightarrow> int \<Rightarrow> string \<Rightarrow> go_int list \<Rightarrow> outcome" where
  "Action w t_start t_end miner sectors =
     (case NewFromString w miner of
        Inl err \<Rightarrow> Return (Some (Errorf ''Getting NewFromString err:'' err)) no_effects
      | Inr maddr \<Rightarrow>
     (case GetFullNodeAPI w of
        Some err \<Rightarrow> Return (Some (Errorf ''Getting FullNodeAPI err:'' err)) no_effects
      | None \<Rightarrow>
     (case StateMinerInfo w maddr EmptyTSK of
        Inl err \<Rightarrow> Return (Some (Errorf ''Getting StateMinerInfo err:'' err)) no_effects
      | Inr mi \<Rightarrow>
     (let st1 = classify_loop w maddr sectors
                  \<lparr>sectorInfos = [], failtSectors = [], tsk = EmptyTSK, logged = []\<rparr>;
          st2 = st1\<lparr>sectorInfos := sort_Sort (sectorInfos st1)\<rparr>
      in case MarshalCBOR w maddr of
           Inl err \<Rightarrow>
             Return (Some (Errorf ''Address MarshalCBOR err:'' err))
               (no_effects\<lparr>stderr := logged st2\<rparr>)
         | Inr buf \<Rightarrow>
             (case ticket_loop w buf [0..<Len (sectorInfos st2)]
                     (st2\<lparr>tsk := EmptyTSK\<rparr>) of
                Panic \<Rightarrow> Crash
              | Ran st3 \<Rightarrow> emit w t_start t_end maddr mi st3)))))"

subsection \<open>Notions used to state the properties\<close>

text \<open>\<open>Less\<close> on two elements rather than two indices.\<close>

definition less_info :: "SectorInfo \<Rightarrow> SectorInfo \<Rightarrow> bool" where
  "less_info a b =
     (if Activation a \<noteq> Activation b then Activation b <s Activation a
      else SectorNumber a < SectorNumber b)"

text \<open>The order of the specification on a pair \<open>(a, b)\<close> of neighbours: \<open>a\<close> was activated
  later than \<open>b\<close>, or at the same epoch with a smaller sector number.\<close>

definition spec_ordered :: "SectorInfo \<Rightarrow> SectorInfo \<Rightarrow> bool" where
  "spec_ordered a b \<longleftrightarrow>
     Activation b <s Activation a
     \<or> (Activation a = Activation b \<and> SectorNumber a < SectorNumber b)"

text \<open>What the inner loop of the sort does to the sorted prefix, read from its right
  end: the new element moves left past every element it is \<open>Less\<close> than.\<close>

fun ins_rev :: "SectorInfo \<Rightarrow> SectorInfo list \<Rightarrow> SectorInfo list" where
  "ins_rev x [] = [x]"
| "ins_rev x (y # ys) = (if less_info x y then y # ins_rev x ys else x # y # ys)"

definition no_ticket :: "SectorInfo \<Rightarrow> SectorInfo" where
  "no_ticket s = s\<lparr>Ticket := None\<rparr>"

text \<open>A sector number is classified when one of the two queries of the classification
  loop answers with a record for it.\<close>

definition classified :: "world \<Rightarrow> address \<Rightarrow> uint64 \<Rightarrow> bool" where
  "classified w maddr n =
     (case StateSectorGetInfo w maddr n EmptyTSK of
        Inl err \<Rightarrow> False
      | Inr (Some si) \<Rightarrow> True
      | Inr None \<Rightarrow>
          (case StateSectorPreCommitInfo w maddr n EmptyTSK of
             Inl err \<Rightarrow> False
           | Inr p \<Rightarrow> True))"

definition init_locals :: locals where
  "init_locals = \<lparr>sectorInfos = [], failtSectors = [], tsk = EmptyTSK, logged = []\<rparr>"

text \<open>The locals after the two loops and the sort between them (lines 59 to 115), for
  the address \<open>maddr\<close> and its encoding \<open>buf\<close>: what the action has gathered when it
  reaches line 117.\<close>

definition gathered :: "world \<Rightarrow> address \<Rightarrow> bytes \<Rightarrow> go_int list \<Rightarrow> locals run" where
  "gathered w maddr buf sectors =
     ticket_loop w buf [0..<length (sort_Sort (sectorInfos (classify_loop w maddr sectors init_locals)))]
       ((classify_loop w maddr sectors init_locals)
          \<lparr>sectorInfos := sort_Sort (sectorInfos (classify_loop w maddr sectors init_locals)),
            tsk := EmptyTSK\<rparr>)"

text \<open>Observations of a run: the record assembled, its sector list, the file written.\<close>

definition assembled_of :: "outcome \<Rightarrow> RecoveryParams option" where
  "assembled_of oc = (case oc of Crash \<Rightarrow> None | Return r eff \<Rightarrow> assembled eff)"

definition output_sectors :: "outcome \<Rightarrow> SectorInfo list" where
  "output_sectors oc = (case assembled_of oc of None \<Rightarrow> [] | Some out \<Rightarrow> SectorInfos out)"

definition written_of :: "outcome \<Rightarrow> (string \<times> bytes) option" where
  "written_of oc = (case oc of Crash \<Rightarrow> None | Return r eff \<Rightarrow> written eff)"

subsection \<open>A concrete chain\<close>

text \<open>
  The examples of the specification: miner \<open>f01000\<close>; sector 5 is committed and active
  since epoch 200; sector 3 is pre-committed at epoch 150 and not yet proven; sector 4
  has no committed record and its pre-commit query fails; sector 7 has an empty answer
  to both queries, nil and the record of zero values; every other sector is unknown
  to the node.  The
  tipset of epoch 150 is found only when the search starts from the tipset of epoch
  200; \<open>TipSet_Key\<close> answers the empty key for a nil tipset.
\<close>

text \<open>A stand-in for the JSON encoder: number, epoch and ticket of each sector, the
  first two cut to a byte.\<close>

definition encode_sector :: "SectorInfo \<Rightarrow> bytes" where
  "encode_sector s =
     ucast (SectorNumber s) # ucast (Activation s)
       # (case Ticket s of None \<Rightarrow> [0] | Some t \<Rightarrow> 1 # t)"

definition demo :: world where
  "demo =
     \<lparr>NewFromString = (\<lambda>s. if s = ''f01000'' then Inr ''f01000''
                            else Inl (Failure ''unknown address network'')),
      address_String = (\<lambda>a. a),
      MarshalCBOR = (\<lambda>a. Inr [0x43, 0x00, 0xe8, 0x07]),
      GetFullNodeAPI = None,
      StateMinerInfo = (\<lambda>a k. Inr \<lparr>mi_SectorSize = 34359738368\<rparr>),
      StateSectorGetInfo = (\<lambda>a n k.
         if n = 5 then Inr (Some \<lparr>soci_SealProof = 8, soci_Activation = 200,
                                   soci_SealedCID = ''bagboea4b5abc5''\<rparr>)
         else if n = 3 \<or> n = 4 \<or> n = 7 then Inr None
         else Inl (Failure ''sector not found'')),
      StateSectorPreCommitInfo = (\<lambda>a n k.
         if n = 3 then Inr \<lparr>Info = \<lparr>spci_SealProof = 8,
                                      spci_SealedCID = ''bagboea4b5abc3''\<rparr>,
                             PreCommitEpoch = 150\<rparr>
         else if n = 7 then Inr \<lparr>Info = \<lparr>spci_SealProof = 0, spci_SealedCID = []\<rparr>,
                                  PreCommitEpoch = 0\<rparr>
         else Inl (Failure ''precommit not found'')),
      ChainGetTipSetByHeight = (\<lambda>h k.
         if h = 200 then (Some \<lparr>ts_cids = [''bafy200''], ts_height = 200\<rparr>, None)
         else if h = 150 \<and> k = [''bafy200'']
           then (Some \<lparr>ts_cids = [''bafy150''], ts_height = 150\<rparr>, None)
         else (None, Some (Failure ''tipset not found''))),
      TipSet_Key = (\<lambda>ts. case ts of None \<Rightarrow> Some EmptyTSK | Some t \<Rightarrow> Some (ts_cids t)),
      StateGetRandomnessFromTickets = (\<lambda>tag h buf k.
         if h = 200 then Inr (Some [0xaa, 0xbb])
         else if k = EmptyTSK then Inr (Some [0xcc])
         else Inl (Failure ''randomness unavailable'')),
      MarshalIndent = (\<lambda>p. Inr (concat (map encode_sector (SectorInfos p)))),
      homedir_Expand = (\<lambda>p. Inr p),
      WriteFile = (\<lambda>f b. None)\<rparr>"

text \<open>The same chain with a directory that cannot be written, and with a node that
  derives no randomness.\<close>

definition demo_readonly :: world where
  "demo_readonly = demo\<lparr>WriteFile := (\<lambda>f b. Some (Failure ''permission denied''))\<rparr>"

definition demo_no_randomness :: world where
  "demo_no_randomness =
     demo\<lparr>StateGetRandomnessFromTickets :=
            (\<lambda>tag h buf k. Inl (Failure ''randomness unavailable''))\<rparr>"

text \<open>The locals of a run on the sectors 5 and 3, after the iteration for sector 5.\<close>

definition after_5 :: locals where
  "after_5 =
     \<lparr>sectorInfos =
        [\<lparr>SectorNumber = 5, Activation = 200, Ticket = Some [0xaa, 0xbb], SealProof = 8,
           SealedCID = ''bagboea4b5abc5''\<rparr>,
         \<lparr>SectorNumber = 3, Activation = 150, Ticket = None, SealProof = 8,
           SealedCID = ''bagboea4b5abc3''\<rparr>],
      failtSectors = [], tsk = [''bafy200''], logged = []\<rparr>"

text \<open>The locals of the same run when the randomness loop starts.\<close>

definition before_5 :: locals where
  "before_5 =
     \<lparr>sectorInfos =
        [\<lparr>SectorNumber = 5, Activation = 200, Ticket = None, SealProof = 8,
           SealedCID = ''bagboea4b5abc5''\<rparr>,
         \<lparr>SectorNumber = 3, Activation = 150, Ticket = None, SealProof = 8,
           SealedCID = ''bagboea4b5abc3''\<rparr>],
      failtSectors = [], tsk = EmptyTSK, logged = []\<rparr>"

section \<open>Lemmas\<close>

lemmas demo_defs =
  demo_def demo_readonly_def demo_no_randomness_def encode_sector_def
  Action_def emit_def no_effects_def classify_body_def ticket_body_def
  sort_Sort_def Len_def Less_def Swap_def abi_SectorNumber_def EmptyTSK_def
  assembled_of_def output_sectors_def written_of_def upt_rec

subsection \<open>Sector numbers\<close>

lemma abi_SectorNumber_id: "abi_SectorNumber s = s"
  by (simp add: abi_SectorNumber_def)

subsection \<open>The order and the sort\<close>

lemma Less_nth: "Less t i j = less_info (t ! i) (t ! j)"
  by (simp add: Less_def less_info_def)

lemma less_info_asym: "less_info a b \<Longrightarrow> \<not> less_info b a"
  by (auto simp: less_info_def split: if_splits)

lemma not_less_info_trans:
  "\<not> less_info b a \<Longrightarrow> \<not> less_info c b \<Longrightarrow> \<not> less_info c a"
  by (auto simp: less_info_def split: if_splits)

lemma not_less_info_iff:
  "(\<not> less_info b a) \<longleftrightarrow>
     (Activation b <s Activation a \<or> (Activation a = Activation b \<and> SectorNumber a \<le> SectorNumber b))"
  by (auto simp: less_info_def split: if_splits)

lemma inner_char:
  "j < length t \<Longrightarrow>
   insertionSort_inner t j = rev (ins_rev (t ! j) (rev (take j t))) @ drop (Suc j) t"
proof (induction j arbitrary: t)
  case 0
  then show ?case by (cases t) auto
next
  case (Suc j)
  let ?t' = "Swap t (Suc j) j"
  from Suc.prems have j: "j < length t" by simp
  have tk: "take (Suc j) t = take j t @ [t ! j]"
    using j by (simp add: take_Suc_conv_app_nth)
  show ?case
  proof (cases "Less t (Suc j) j")
    case False
    then have "insertionSort_inner t (Suc j) = t" by simp
    moreover have "rev (ins_rev (t ! Suc j) (rev (take (Suc j) t))) = take (Suc (Suc j)) t"
      using False Suc.prems by (simp add: tk Less_nth take_Suc_conv_app_nth)
    ultimately show ?thesis by (metis append_take_drop_id)
  next
    case True
    have len: "j < length ?t'" using j by (simp add: Swap_def)
    have nth: "?t' ! j = t ! Suc j" using Suc.prems by (simp add: Swap_def)
    have tk': "take j ?t' = take j t" by (simp add: Swap_def)
    have dr': "drop (Suc j) ?t' = t ! j # drop (Suc (Suc j)) t"
      using Suc.prems by (simp add: Swap_def drop_update_swap Cons_nth_drop_Suc [symmetric] )
    have "insertionSort_inner t (Suc j) = insertionSort_inner ?t' j"
      using True by simp
    also have "\<dots> = rev (ins_rev (?t' ! j) (rev (take j ?t'))) @ drop (Suc j) ?t'"
      by (rule Suc.IH [OF len])
    also have "\<dots> = rev (ins_rev (t ! Suc j) (rev (take j t))) @ t ! j # drop (Suc (Suc j)) t"
      by (simp only: nth tk' dr')
    also have "\<dots> = rev (ins_rev (t ! Suc j) (rev (take (Suc j) t))) @ drop (Suc (Suc j)) t"
      using True by (simp add: tk Less_nth)
    finally show ?thesis .
  qed
qed

lemma set_ins_rev: "set (ins_rev x ys) = insert x (set ys)"
  by (induction ys) auto

lemma mset_ins_rev: "mset (ins_rev x ys) = add_mset x (mset ys)"
  by (induction ys) auto

lemma length_ins_rev: "length (ins_rev x ys) = Suc (length ys)"
  by (induction ys) auto

lemma sorted_ins_rev:
  "sorted_wrt (\<lambda>a b. \<not> less_info a b) ys \<Longrightarrow> sorted_wrt (\<lambda>a b. \<not> less_info a b) (ins_rev x ys)"
  by (induction ys) (auto simp: set_ins_rev dest: less_info_asym not_less_info_trans)

lemma mset_inner: "j < length t \<Longrightarrow> mset (insertionSort_inner t j) = mset t"
proof -
  assume j: "j < length t"
  have "mset t = mset (take j t @ t ! j # drop (Suc j) t)"
    using j by (simp only: id_take_nth_drop [symmetric])
  then show ?thesis using j by (simp add: inner_char mset_ins_rev)
qed

lemma length_inner: "j < length t \<Longrightarrow> length (insertionSort_inner t j) = length t"
  by (metis mset_inner size_mset)

lemma take_inner:
  "j < length t \<Longrightarrow>
   take (Suc j) (insertionSort_inner t j) = rev (ins_rev (t ! j) (rev (take j t)))"
  by (simp add: inner_char length_ins_rev)

lemma sorted_inner:
  assumes "j < length t" and "sorted_wrt (\<lambda>a b. \<not> less_info b a) (take j t)"
  shows "sorted_wrt (\<lambda>a b. \<not> less_info b a) (take (Suc j) (insertionSort_inner t j))"
proof -
  from assms(2) have "sorted_wrt (\<lambda>a b. \<not> less_info a b) (rev (take j t))"
    by (simp add: sorted_wrt_rev)
  then have "sorted_wrt (\<lambda>a b. \<not> less_info a b) (ins_rev (t ! j) (rev (take j t)))"
    by (rule sorted_ins_rev)
  then show ?thesis using assms(1) by (simp add: take_inner sorted_wrt_rev)
qed

lemma sort_prefix:
  "k \<le> length t \<Longrightarrow>
   length (fold (\<lambda>i t'. insertionSort_inner t' i) [1..<k] t) = length t
   \<and> mset (fold (\<lambda>i t'. insertionSort_inner t' i) [1..<k] t) = mset t
   \<and> sorted_wrt (\<lambda>a b. \<not> less_info b a)
         (take k (fold (\<lambda>i t'. insertionSort_inner t' i) [1..<k] t))"
proof (induction k)
  case 0
  then show ?case by simp
next
  case (Suc k)
  show ?case
  proof (cases k)
    case 0
    then show ?thesis by (cases t) auto
  next
    case (Suc k')
    let ?u = "fold (\<lambda>i t'. insertionSort_inner t' i) [1..<k] t"
    from Suc.prems Suc.IH have ih: "length ?u = length t" "mset ?u = mset t"
      "sorted_wrt (\<lambda>a b. \<not> less_info b a) (take k ?u)" by simp_all
    have step: "fold (\<lambda>i t'. insertionSort_inner t' i) [1..<Suc k] t = insertionSort_inner ?u k"
      using Suc by simp
    have k: "k < length ?u" using Suc.prems ih(1) by simp
    show ?thesis
      unfolding step using k ih
      by (simp add: length_inner mset_inner sorted_inner)
  qed
qed

lemma length_sort_Sort: "length (sort_Sort t) = length t"
  using sort_prefix [of "length t" t] by (simp add: sort_Sort_def Len_def)

lemma mset_sort_Sort: "mset (sort_Sort t) = mset t"
  using sort_prefix [of "length t" t] by (simp add: sort_Sort_def Len_def)

lemma sorted_sort_Sort: "sorted_wrt (\<lambda>a b. \<not> less_info b a) (sort_Sort t)"
proof -
  let ?u = "fold (\<lambda>i t'. insertionSort_inner t' i) [1..<length t] t"
  note sp = sort_prefix [OF order_refl, of t]
  have len: "length ?u = length t" by (rule sp [THEN conjunct1])
  have srt: "sorted_wrt (\<lambda>a b. \<not> less_info b a) (take (length t) ?u)"
    by (rule sp [THEN conjunct2, THEN conjunct2])
  from len have "take (length t) ?u = ?u" by simp
  with srt show ?thesis by (simp add: sort_Sort_def Len_def)
qed

subsection \<open>The two loops\<close>

lemma classify_body_numbers:
  "map SectorNumber (sectorInfos (classify_body w maddr sector st)) =
     map SectorNumber (sectorInfos st) @ filter (classified w maddr) [abi_SectorNumber sector]"
  by (simp add: classify_body_def classified_def split: sum.splits option.splits)

lemma classify_loop_numbers:
  "map SectorNumber (sectorInfos (classify_loop w maddr sectors st)) =
     map SectorNumber (sectorInfos st) @ filter (classified w maddr) (map abi_SectorNumber sectors)"
  by (induction sectors arbitrary: st) (simp_all add: classify_body_numbers)

lemma classify_body_failures:
  "failtSectors (classify_body w maddr sector st) =
     failtSectors st @ filter (\<lambda>n. \<not> classified w maddr n) [abi_SectorNumber sector]"
  by (simp add: classify_body_def classified_def split: sum.splits option.splits)

lemma classify_loop_failures:
  "failtSectors (classify_loop w maddr sectors st) =
     failtSectors st @ filter (\<lambda>n. \<not> classified w maddr n) (map abi_SectorNumber sectors)"
  by (induction sectors arbitrary: st) (simp_all add: classify_body_failures)

lemma classify_body_grows:
  "set (sectorInfos st) \<subseteq> set (sectorInfos (classify_body w maddr sector st))"
  by (auto simp: classify_body_def split: sum.splits option.splits)

lemma classify_loop_grows:
  "set (sectorInfos st) \<subseteq> set (sectorInfos (classify_loop w maddr sectors st))"
proof (induction sectors arbitrary: st)
  case Nil
  then show ?case by simp
next
  case (Cons s rest)
  have "set (sectorInfos st) \<subseteq> set (sectorInfos (classify_body w maddr s st))"
    by (rule classify_body_grows)
  also have "\<dots> \<subseteq> set (sectorInfos (classify_loop w maddr rest (classify_body w maddr s st)))"
    by (rule Cons.IH)
  finally show ?case by simp
qed

lemma classify_loop_mem:
  assumes "sector \<in> set sectors"
    and "\<And>st. classify_body w maddr sector st = st\<lparr>sectorInfos := sectorInfos st @ [e]\<rparr>"
  shows "e \<in> set (sectorInfos (classify_loop w maddr sectors st))"
  using assms(1)
proof (induction sectors arbitrary: st)
  case Nil
  then show ?case by simp
next
  case (Cons s rest)
  show ?case
  proof (cases "s = sector")
    case True
    have "e \<in> set (sectorInfos (classify_body w maddr sector st))"
      by (simp add: assms(2))
    with classify_loop_grows [of "classify_body w maddr sector st" w maddr rest] True
    show ?thesis by auto
  next
    case False
    with Cons.prems have "sector \<in> set rest" by simp
    from Cons.IH [OF this] show ?thesis by simp
  qed
qed

lemma classify_body_tickets:
  "\<forall>s \<in> set (sectorInfos st). Ticket s = None \<Longrightarrow>
   \<forall>s \<in> set (sectorInfos (classify_body w maddr sector st)). Ticket s = None"
  by (auto simp: classify_body_def split: sum.splits option.splits)

lemma classify_loop_tickets:
  "\<forall>s \<in> set (sectorInfos st). Ticket s = None \<Longrightarrow>
   \<forall>s \<in> set (sectorInfos (classify_loop w maddr sectors st)). Ticket s = None"
proof (induction sectors arbitrary: st)
  case Nil
  then show ?case by simp
next
  case (Cons s rest)
  from Cons.IH [OF classify_body_tickets [OF Cons.prems]] show ?case by simp
qed

lemma map_update_same:
  "f x = f (xs ! i) \<Longrightarrow> map f (xs[i := x]) = map f xs"
  by (cases "i < length xs") (auto simp: list_eq_iff_nth_eq nth_list_update)

lemma ticket_body_frame:
  "ticket_body w buf i st = Ran st' \<Longrightarrow>
   map no_ticket (sectorInfos st') = map no_ticket (sectorInfos st)
   \<and> (\<forall>j. j \<noteq> i \<longrightarrow> sectorInfos st' ! j = sectorInfos st ! j)
   \<and> (\<exists>more. failtSectors st' = failtSectors st @ more)"
  by (auto simp: ticket_body_def Let_def no_ticket_def map_update_same
      split: prod.splits option.splits sum.splits)

lemma ticket_loop_frame:
  "ticket_loop w buf is st = Ran st' \<Longrightarrow>
   map no_ticket (sectorInfos st') = map no_ticket (sectorInfos st)
   \<and> (\<forall>j. j \<notin> set is \<longrightarrow> sectorInfos st' ! j = sectorInfos st ! j)
   \<and> (\<exists>more. failtSectors st' = failtSectors st @ more)"
proof (induction "is" arbitrary: st)
  case Nil
  then show ?case by simp
next
  case (Cons i rest)
  from Cons.prems obtain st1 where b: "ticket_body w buf i st = Ran st1"
    and l: "ticket_loop w buf rest st1 = Ran st'"
    by (auto split: run.splits)
  show ?case
    using Cons.IH [OF l] ticket_body_frame [OF b] by auto
qed

lemma ticket_body_total:
  assumes "\<forall>ts. TipSet_Key w ts \<noteq> None"
  shows "\<exists>st'. ticket_body w buf i st = Ran st'"
proof -
  obtain ts e where c: "ChainGetTipSetByHeight w (Activation (sectorInfos st ! i)) (tsk st) = (ts, e)"
    by (cases "ChainGetTipSetByHeight w (Activation (sectorInfos st ! i)) (tsk st)")
  from assms obtain k where k: "TipSet_Key w ts = Some k" by auto
  show ?thesis
    by (cases "StateGetRandomnessFromTickets w DomainSeparationTag_SealRandomness
                 (Activation (sectorInfos st ! i)) buf k")
       (simp_all add: ticket_body_def c k Let_def)
qed

lemma ticket_loop_total:
  "\<forall>ts. TipSet_Key w ts \<noteq> None \<Longrightarrow> \<exists>st'. ticket_loop w buf is st = Ran st'"
proof (induction "is" arbitrary: st)
  case Nil
  then show ?case by simp
next
  case (Cons i rest)
  then obtain st1 where "ticket_body w buf i st = Ran st1"
    using ticket_body_total [of w buf i st] by auto
  moreover from Cons obtain st' where "ticket_loop w buf rest st1 = Ran st'"
    by fastforce
  ultimately show ?case by simp
qed

lemma ticket_loop_append:
  "ticket_loop w buf (xs @ ys) st =
     (case ticket_loop w buf xs st of Panic \<Rightarrow> Panic | Ran st' \<Rightarrow> ticket_loop w buf ys st')"
  by (induction xs arbitrary: st) (auto split: run.splits)

lemma ticket_body_all_fail:
  assumes "\<forall>tag h b k. isl (StateGetRandomnessFromTickets w tag h b k)"
    and "ticket_body w buf i st = Ran st'"
  shows "sectorInfos st' = sectorInfos st"
proof -
  obtain ts e where c: "ChainGetTipSetByHeight w (Activation (sectorInfos st ! i)) (tsk st) = (ts, e)"
    by (cases "ChainGetTipSetByHeight w (Activation (sectorInfos st ! i)) (tsk st)")
  from assms(2) c obtain k where k: "TipSet_Key w ts = Some k"
    by (cases "TipSet_Key w ts") (auto simp: ticket_body_def Let_def)
  from assms(1) obtain err where
    "StateGetRandomnessFromTickets w DomainSeparationTag_SealRandomness
       (Activation (sectorInfos st ! i)) buf k = Inl err"
    by (metis isl_def)
  with assms(2) c k show ?thesis
    by (auto simp: ticket_body_def Let_def)
qed

lemma ticket_loop_all_fail:
  assumes "\<forall>tag h b k. isl (StateGetRandomnessFromTickets w tag h b k)"
  shows "ticket_loop w buf is st = Ran st' \<Longrightarrow> sectorInfos st' = sectorInfos st"
proof (induction "is" arbitrary: st)
  case Nil
  then show ?case by simp
next
  case (Cons i rest)
  from Cons.prems obtain st1 where b: "ticket_body w buf i st = Ran st1"
    and l: "ticket_loop w buf rest st1 = Ran st'"
    by (auto split: run.splits)
  from ticket_body_all_fail [OF assms b] Cons.IH [OF l] show ?case by simp
qed

subsection \<open>The action and its loops\<close>

lemma Action_unfold:
  assumes "NewFromString w miner = Inr maddr" and "GetFullNodeAPI w = None"
    and "StateMinerInfo w maddr EmptyTSK = Inr mi"
    and "MarshalCBOR w maddr = Inr buf"
    and "gathered w maddr buf sectors = Ran st3"
  shows "Action w t0 t1 miner sectors = emit w t0 t1 maddr mi st3"
  using assms by (simp add: Action_def gathered_def init_locals_def Len_def Let_def)


lemma Action_assembled:
  assumes "assembled_of (Action w t0 t1 miner sectors) = Some out"
  shows "\<exists>maddr mi buf st3.
           NewFromString w miner = Inr maddr \<and> GetFullNodeAPI w = None
         \<and> StateMinerInfo w maddr EmptyTSK = Inr mi
         \<and> MarshalCBOR w maddr = Inr buf
         \<and> gathered w maddr buf sectors = Ran st3
         \<and> out = \<lparr>Miner = maddr, SectorSize = mi_SectorSize mi, SectorInfos = sectorInfos st3\<rparr>"
  using assms
  by (auto simp: Action_def emit_def Let_def no_effects_def init_locals_def Len_def
        assembled_of_def gathered_def
      split: sum.splits option.splits run.splits)

lemma emit_effects:
  "\<exists>r eff. emit w t0 t1 maddr mi st = Return r eff
     \<and> assembled eff = Some \<lparr>Miner = maddr, SectorSize = mi_SectorSize mi,
                              SectorInfos = sectorInfos st\<rparr>
     \<and> written eff =
         (case MarshalIndent w \<lparr>Miner = maddr, SectorSize = mi_SectorSize mi,
                                 SectorInfos = sectorInfos st\<rparr> of
            Inl e \<Rightarrow> None
          | Inr out \<Rightarrow>
              (case homedir_Expand w (''sectors-recovery-'' @ address_String w maddr @ ''.json'') of
                 Inl e \<Rightarrow> None
               | Inr ofile \<Rightarrow>
                   (case WriteFile w ofile out of
                      Some e \<Rightarrow> None
                    | None \<Rightarrow> Some (ofile, out))))"
  by (simp add: emit_def Let_def split: sum.splits option.splits)

lemma assembled_emit:
  "assembled_of (emit w t0 t1 maddr mi st)
   = Some \<lparr>Miner = maddr, SectorSize = mi_SectorSize mi, SectorInfos = sectorInfos st\<rparr>"
  by (simp add: emit_def assembled_of_def Let_def split: sum.splits option.splits)

lemma written_emit:
  "written_of (emit w t0' t1' maddr mi st) = written_of (emit w t0 t1 maddr mi st)"
  by (simp add: emit_def written_of_def Let_def split: sum.splits option.splits)

lemma less_info_no_ticket: "less_info (no_ticket a) (no_ticket b) = less_info a b"
  by (simp add: less_info_def no_ticket_def)

lemma sorted_no_ticket:
  "sorted_wrt (\<lambda>a b. \<not> less_info b a) (map no_ticket xs)
   = sorted_wrt (\<lambda>a b. \<not> less_info b a) xs"
  by (simp add: sorted_wrt_map less_info_no_ticket)

lemma SectorNumber_no_ticket: "map SectorNumber (map no_ticket xs) = map SectorNumber xs"
  by (simp add: no_ticket_def)

lemma gathered_frame:
  assumes "gathered w maddr buf sectors = Ran st3"
  shows "map no_ticket (sectorInfos st3)
         = map no_ticket (sort_Sort (sectorInfos (classify_loop w maddr sectors init_locals)))"
  using ticket_loop_frame [OF assms [unfolded gathered_def]] by simp

lemma gathered_sorted:
  assumes "gathered w maddr buf sectors = Ran st3"
  shows "sorted_wrt (\<lambda>a b. \<not> less_info b a) (sectorInfos st3)"
proof -
  have "sorted_wrt (\<lambda>a b. \<not> less_info b a) (map no_ticket (sectorInfos st3))"
    by (simp add: gathered_frame [OF assms] sorted_no_ticket sorted_sort_Sort)
  then show ?thesis by (simp add: sorted_no_ticket)
qed

lemma gathered_numbers:
  assumes "gathered w maddr buf sectors = Ran st3"
  shows "mset (map SectorNumber (sectorInfos st3)) =
         mset (filter (classified w maddr) (map abi_SectorNumber sectors))"
proof -
  have "map SectorNumber (sectorInfos st3)
        = map SectorNumber (sort_Sort (sectorInfos (classify_loop w maddr sectors init_locals)))"
    using gathered_frame [OF assms] by (metis SectorNumber_no_ticket)
  then have "mset (map SectorNumber (sectorInfos st3))
             = image_mset SectorNumber
                 (mset (sort_Sort (sectorInfos (classify_loop w maddr sectors init_locals))))"
    by simp
  also have "\<dots> = mset (map SectorNumber (sectorInfos (classify_loop w maddr sectors init_locals)))"
    by (simp add: mset_sort_Sort)
  also have "\<dots> = mset (filter (classified w maddr) (map abi_SectorNumber sectors))"
    by (simp add: classify_loop_numbers init_locals_def)
  finally show ?thesis .
qed

lemma Action_sorted:
  assumes "assembled_of (Action w t0 t1 miner sectors) = Some out"
  shows "sorted_wrt (\<lambda>a b. \<not> less_info b a) (SectorInfos out)"
proof -
  from Action_assembled [OF assms] obtain maddr and mi :: MinerInfo and buf st3 where
    g: "gathered w maddr buf sectors = Ran st3"
    and out: "out = \<lparr>Miner = maddr, SectorSize = mi_SectorSize mi,
                    SectorInfos = sectorInfos st3\<rparr>"
    by blast
  from gathered_sorted [OF g] show ?thesis by (simp add: out)
qed

lemma Action_numbers:
  assumes "assembled_of (Action w t0 t1 miner sectors) = Some out"
    and "NewFromString w miner = Inr maddr"
  shows "mset (map SectorNumber (SectorInfos out)) =
         mset (filter (classified w maddr) (map abi_SectorNumber sectors))"
proof -
  from Action_assembled [OF assms(1)] obtain maddr' and mi :: MinerInfo and buf st3 where
    n: "NewFromString w miner = Inr maddr'"
    and g': "gathered w maddr' buf sectors = Ran st3"
    and out: "out = \<lparr>Miner = maddr', SectorSize = mi_SectorSize mi,
                    SectorInfos = sectorInfos st3\<rparr>"
    by blast
  from n assms(2) have eq: "maddr' = maddr" by simp
  note g = g' [unfolded eq]
  from gathered_numbers [OF g] show ?thesis by (simp add: out)
qed

lemma Action_distinct:
  assumes "assembled_of (Action w t0 t1 miner sectors) = Some out" and "distinct sectors"
  shows "distinct (map SectorNumber (SectorInfos out))"
proof -
  from Action_assembled [OF assms(1)] obtain maddr where "NewFromString w miner = Inr maddr"
    by blast
  from Action_numbers [OF assms(1) this]
  have m: "mset (map SectorNumber (SectorInfos out)) =
         mset (filter (classified w maddr) (map abi_SectorNumber sectors))" .
  have "map abi_SectorNumber sectors = sectors"
    by (simp add: abi_SectorNumber_id map_idI)
  with assms(2) have "distinct (filter (classified w maddr) (map abi_SectorNumber sectors))"
    by simp
  with m show ?thesis by (metis mset_eq_imp_distinct_iff)
qed

lemma classify_body_fs:
  "classify_body (w\<lparr>homedir_Expand := h, WriteFile := f\<rparr>) = classify_body w"
  by (intro ext) (simp add: classify_body_def split: sum.splits option.splits)

lemma classify_loop_fs:
  "classify_loop (w\<lparr>homedir_Expand := h, WriteFile := f\<rparr>) maddr sectors st
   = classify_loop w maddr sectors st"
  by (induction sectors arbitrary: st) (simp_all add: classify_body_fs)

lemma ticket_body_fs:
  "ticket_body (w\<lparr>homedir_Expand := h, WriteFile := f\<rparr>) = ticket_body w"
  by (intro ext) (simp add: ticket_body_def Let_def split: prod.splits sum.splits option.splits)

lemma ticket_loop_fs:
  "ticket_loop (w\<lparr>homedir_Expand := h, WriteFile := f\<rparr>) buf is st
   = ticket_loop w buf is st"
  by (induction "is" arbitrary: st) (simp_all add: ticket_body_fs split: run.splits)

subsection \<open>The sorted list does not depend on the sorting algorithm\<close>

text \<open>
  Two entries built by the classification loop for the same sector number are equal,
  since both come from the same answers.  Hence the list of classified sectors has
  exactly one arrangement that is sorted with respect to \<open>Less\<close>, and every sorting
  algorithm that permutes the slice into such an arrangement returns what
  \<open>sort_Sort\<close> returns.
\<close>

lemma less_info_equiv:
  "\<not> less_info a b \<Longrightarrow> \<not> less_info b a \<Longrightarrow>
   Activation a = Activation b \<and> SectorNumber a = SectorNumber b"
  by (auto simp: less_info_def split: if_splits)

lemma sorted_perm_unique:
  assumes "sorted_wrt (\<lambda>a b. \<not> less_info b a) xs"
    and "sorted_wrt (\<lambda>a b. \<not> less_info b a) ys"
    and "mset xs = mset ys"
    and "\<forall>a \<in> set xs. \<forall>b \<in> set xs. SectorNumber a = SectorNumber b \<longrightarrow> a = b"
  shows "xs = ys"
  using assms
proof (induction xs arbitrary: ys)
  case Nil
  then show ?case by simp
next
  case (Cons x xs)
  from Cons.prems(3) have "ys \<noteq> []" by auto
  then obtain y ys' where ys: "ys = y # ys'"
    by (cases ys) simp_all
  from Cons.prems(1) have sx: "\<forall>z \<in> set xs. \<not> less_info z x"
    and sxs: "sorted_wrt (\<lambda>a b. \<not> less_info b a) xs" by simp_all
  from Cons.prems(2) have sy: "\<forall>z \<in> set ys'. \<not> less_info z y"
    and sys: "sorted_wrt (\<lambda>a b. \<not> less_info b a) ys'" unfolding ys by simp_all
  have sets: "set (x # xs) = set (y # ys')"
    using mset_eq_setD [OF Cons.prems(3)] unfolding ys .
  have xy: "x = y"
  proof (rule ccontr)
    assume ne: "x \<noteq> y"
    from sets have "y \<in> set (x # xs)" by simp
    with ne have yin: "y \<in> set xs" by simp
    from sets have "x \<in> set (y # ys')" by (metis list.set_intros(1))
    with ne have xin: "x \<in> set ys'" by simp
    from sx yin have a: "\<not> less_info y x" by blast
    from sy xin have b: "\<not> less_info x y" by blast
    have "SectorNumber x = SectorNumber y"
      by (rule less_info_equiv [OF b a, THEN conjunct2])
    moreover have "x \<in> set (x # xs)" and "y \<in> set (x # xs)" using yin by simp_all
    ultimately have "x = y" using Cons.prems(4) by blast
    with ne show False by simp
  qed
  from Cons.prems(3) have m: "mset xs = mset ys'" unfolding ys xy by simp
  have u: "\<forall>a \<in> set xs. \<forall>b \<in> set xs. SectorNumber a = SectorNumber b \<longrightarrow> a = b"
  proof (intro ballI impI)
    fix a b assume "a \<in> set xs" "b \<in> set xs" "SectorNumber a = SectorNumber b"
    moreover then have "a \<in> set (x # xs)" "b \<in> set (x # xs)" by simp_all
    ultimately show "a = b" using Cons.prems(4) by blast
  qed
  have "xs = ys'" by (rule Cons.IH [OF sxs sys m u])
  with xy ys show ?case by simp
qed

lemma sort_Sort_unique:
  assumes "mset ys = mset xs"
    and "sorted_wrt (\<lambda>a b. \<not> less_info b a) ys"
    and "\<forall>a \<in> set xs. \<forall>b \<in> set xs. SectorNumber a = SectorNumber b \<longrightarrow> a = b"
  shows "ys = sort_Sort xs"
proof -
  have "set (sort_Sort xs) = set xs"
    by (metis mset_sort_Sort set_mset_mset)
  with assms(3) have
    "\<forall>a \<in> set (sort_Sort xs). \<forall>b \<in> set (sort_Sort xs). SectorNumber a = SectorNumber b \<longrightarrow> a = b"
    by simp
  from sorted_perm_unique [OF sorted_sort_Sort assms(2) _ this] assms(1)
  show ?thesis by (simp add: mset_sort_Sort)
qed

lemma classify_body_appends:
  "sectorInfos (classify_body w maddr sector st) = sectorInfos st
   \<or> (\<exists>e. sectorInfos (classify_body w maddr sector st) = sectorInfos st @ [e]
          \<and> SectorNumber e = sector
          \<and> sectorInfos (classify_body w maddr sector init_locals) = [e])"
  by (simp add: classify_body_def abi_SectorNumber_id init_locals_def
      split: sum.splits option.splits)

lemma classify_body_own:
  assumes "\<forall>e \<in> set (sectorInfos st).
             sectorInfos (classify_body w maddr (SectorNumber e) init_locals) = [e]"
  shows "\<forall>e \<in> set (sectorInfos (classify_body w maddr sector st)).
           sectorInfos (classify_body w maddr (SectorNumber e) init_locals) = [e]"
proof -
  from classify_body_appends [of w maddr sector st] show ?thesis
  proof
    assume "sectorInfos (classify_body w maddr sector st) = sectorInfos st"
    with assms show ?thesis by simp
  next
    assume "\<exists>e. sectorInfos (classify_body w maddr sector st) = sectorInfos st @ [e]
          \<and> SectorNumber e = sector
          \<and> sectorInfos (classify_body w maddr sector init_locals) = [e]"
    then obtain e where "sectorInfos (classify_body w maddr sector st) = sectorInfos st @ [e]"
      and "SectorNumber e = sector"
      and "sectorInfos (classify_body w maddr sector init_locals) = [e]"
      by blast
    with assms show ?thesis by simp
  qed
qed

lemma classify_loop_own:
  assumes "\<forall>e \<in> set (sectorInfos st).
             sectorInfos (classify_body w maddr (SectorNumber e) init_locals) = [e]"
  shows "\<forall>e \<in> set (sectorInfos (classify_loop w maddr sectors st)).
           sectorInfos (classify_body w maddr (SectorNumber e) init_locals) = [e]"
  using assms
proof (induction sectors arbitrary: st)
  case Nil
  then show ?case by simp
next
  case (Cons s rest)
  from Cons.IH [OF classify_body_own [OF Cons.prems]] show ?case by simp
qed

lemma classify_loop_same_number:
  "\<forall>a \<in> set (sectorInfos (classify_loop w maddr sectors init_locals)).
   \<forall>b \<in> set (sectorInfos (classify_loop w maddr sectors init_locals)).
     SectorNumber a = SectorNumber b \<longrightarrow> a = b"
proof (intro ballI impI)
  fix a b
  assume a: "a \<in> set (sectorInfos (classify_loop w maddr sectors init_locals))"
    and b: "b \<in> set (sectorInfos (classify_loop w maddr sectors init_locals))"
    and n: "SectorNumber a = SectorNumber b"
  have own: "\<forall>e \<in> set (sectorInfos (classify_loop w maddr sectors init_locals)).
           sectorInfos (classify_body w maddr (SectorNumber e) init_locals) = [e]"
    by (rule classify_loop_own) (simp add: init_locals_def)
  from own a have fa: "sectorInfos (classify_body w maddr (SectorNumber a) init_locals) = [a]"
    by (rule bspec)
  from own b have fb: "sectorInfos (classify_body w maddr (SectorNumber b) init_locals) = [b]"
    by (rule bspec)
  from fa fb [folded n] have "[a] = [b]" by (rule trans [OF sym])
  then show "a = b" by (rule list.inject [THEN iffD1, THEN conjunct1])
qed

lemma any_sort_gives_sort_Sort:
  assumes "mset ys = mset (sectorInfos (classify_loop w maddr sectors init_locals))"
    and "sorted_wrt (\<lambda>a b. \<not> less_info b a) ys"
  shows "ys = sort_Sort (sectorInfos (classify_loop w maddr sectors init_locals))"
  using sort_Sort_unique [OF assms classify_loop_same_number] .

section \<open>The claims\<close>

subsection \<open>C1: a failed tipset lookup\<close>

text \<open>
  C1 does not hold of the code: the error returned by \<^verbatim>\<open>ChainGetTipSetByHeight\<close> is
  never read.  On the chain \<open>demo\<close> the lookup at epoch 150 fails when it starts from the
  empty key, as it does for the single sector 3; the command goes on with the key of
  the nil tipset, derives a ticket and stores it, logs nothing and reports no failed
  sector.
\<close>

theorem C1_tipset_error_ignored:
  "ChainGetTipSetByHeight demo 150 EmptyTSK = (None, Some (Failure ''tipset not found''))
   \<and> Action demo 0 7 ''f01000'' [3] =
       Return None
         \<lparr>stderr = [],
          assembled = Some \<lparr>Miner = ''f01000'', SectorSize = 34359738368,
            SectorInfos = [\<lparr>SectorNumber = 3, Activation = 150, Ticket = Some [0xcc],
                             SealProof = 8, SealedCID = ''bagboea4b5abc3''\<rparr>]\<rparr>,
          written = Some (''sectors-recovery-f01000.json'', [3, 150, 1, 0xcc]),
          stdout = Some (1, [], 7)\<rparr>"
  by (simp add: demo_defs)

subsection \<open>C2: which sectors the output lists\<close>

text \<open>
  The claim C2 as stated fails: the classification loop appends one entry for every
  element of the input list and nothing removes a repeated sector number.  The input
  \<open>[5, 5]\<close> gives an output record with two entries for sector 5.
\<close>

theorem C2_repeated_sector_counterexample:
  "map SectorNumber (output_sectors (Action demo 0 7 ''f01000'' [5, 5])) = [5, 5]
   \<and> \<not> distinct (map SectorNumber (output_sectors (Action demo 0 7 ''f01000'' [5, 5])))"
  by (simp add: demo_defs)

text \<open>
  C2, amended: when the output record is assembled, its sector list has one entry for
  every occurrence, in the input list, of a sector number that was classified through
  the committed or the pre-committed path, and no other entry; so when the input
  list repeats no sector number, the sector numbers of the output are pairwise
  distinct and each classified sector is present exactly once.
\<close>

theorem C2_sector_list:
  assumes "assembled_of (Action w t0 t1 miner sectors) \<noteq> None"
    and "NewFromString w miner = Inr maddr"
  shows "mset (map SectorNumber (output_sectors (Action w t0 t1 miner sectors))) =
           mset (filter (classified w maddr) (map abi_SectorNumber sectors))
         \<and> (distinct sectors \<longrightarrow>
              distinct (map SectorNumber (output_sectors (Action w t0 t1 miner sectors))))"
proof -
  from assms(1) obtain out where a: "assembled_of (Action w t0 t1 miner sectors) = Some out"
    by blast
  then have "output_sectors (Action w t0 t1 miner sectors) = SectorInfos out"
    by (simp add: output_sectors_def)
  then show ?thesis
    using Action_numbers [OF a assms(2)] Action_distinct [OF a] by simp
qed

theorem C2_sector_list_witness:
  "assembled_of (Action demo 0 7 ''f01000'' [3, 5, 9]) \<noteq> None
   \<and> NewFromString demo ''f01000'' = Inr ''f01000''
   \<and> mset (map SectorNumber (output_sectors (Action demo 0 7 ''f01000'' [3, 5, 9]))) =
       mset (filter (classified demo ''f01000'') (map abi_SectorNumber [3, 5, 9]))
   \<and> distinct [3, 5, 9 :: go_int]
   \<and> distinct (map SectorNumber (output_sectors (Action demo 0 7 ''f01000'' [3, 5, 9])))"
proof -
  have h1: "assembled_of (Action demo 0 7 ''f01000'' [3, 5, 9]) \<noteq> None"
    by (simp add: demo_defs)
  have h2: "NewFromString demo ''f01000'' = Inr ''f01000''"
    by (simp add: demo_def)
  have h3: "distinct [3, 5, 9 :: go_int]" by simp
  from C2_sector_list [OF h1 h2] h1 h2 h3 show ?thesis by blast
qed

subsection \<open>C3: the order of the output\<close>

text \<open>
  The claim C3 as stated fails on the input \<open>[5, 5]\<close>: the two entries for sector 5
  are neighbours with equal activation epochs and equal sector numbers, so neither
  alternative of the strict order holds for them.
\<close>

theorem C3_strict_order_counterexample:
  "length (output_sectors (Action demo 0 7 ''f01000'' [5, 5])) = 2
   \<and> \<not> spec_ordered (output_sectors (Action demo 0 7 ''f01000'' [5, 5]) ! 0)
                      (output_sectors (Action demo 0 7 ''f01000'' [5, 5]) ! 1)"
  by (simp add: demo_defs spec_ordered_def)

text \<open>
  C3, amended: for every pair \<open>(a, b)\<close> of neighbours in the sector list of the output,
  \<open>a\<close> has the later activation epoch (as signed 64-bit integers), or the two epochs
  are equal and the sector number of \<open>a\<close> is at most that of \<open>b\<close>; when the input list
  repeats no sector number the order is the strict one of the specification.
\<close>

theorem C3_order:
  assumes "Suc i < length (output_sectors (Action w t0 t1 miner sectors))"
  shows "(Activation (output_sectors (Action w t0 t1 miner sectors) ! Suc i)
            <s Activation (output_sectors (Action w t0 t1 miner sectors) ! i)
          \<or> (Activation (output_sectors (Action w t0 t1 miner sectors) ! i)
               = Activation (output_sectors (Action w t0 t1 miner sectors) ! Suc i)
             \<and> SectorNumber (output_sectors (Action w t0 t1 miner sectors) ! i)
               \<le> SectorNumber (output_sectors (Action w t0 t1 miner sectors) ! Suc i)))
       \<and> (distinct sectors \<longrightarrow>
            spec_ordered (output_sectors (Action w t0 t1 miner sectors) ! i)
                         (output_sectors (Action w t0 t1 miner sectors) ! Suc i))"
proof -
  let ?xs = "output_sectors (Action w t0 t1 miner sectors)"
  from assms obtain out where a: "assembled_of (Action w t0 t1 miner sectors) = Some out"
    and xs: "?xs = SectorInfos out"
    by (auto simp: output_sectors_def split: option.splits)
  have srt: "sorted_wrt (\<lambda>a b. \<not> less_info b a) ?xs"
    using Action_sorted [OF a] xs by simp
  have le: "\<not> less_info (?xs ! Suc i) (?xs ! i)"
    using sorted_wrt_nth_less [OF srt, of i "Suc i"] assms by simp
  have "spec_ordered (?xs ! i) (?xs ! Suc i)" if "distinct sectors"
  proof -
    from Action_distinct [OF a that] xs have "distinct (map SectorNumber ?xs)" by simp
    then have "SectorNumber (?xs ! i) \<noteq> SectorNumber (?xs ! Suc i)"
      using assms by (auto simp: distinct_conv_nth)
    with le show ?thesis
      by (auto simp: not_less_info_iff spec_ordered_def)
  qed
  with le show ?thesis by (simp add: not_less_info_iff)
qed

theorem C3_order_witness:
  "Suc 0 < length (output_sectors (Action demo 0 7 ''f01000'' [3, 5, 9]))
   \<and> Activation (output_sectors (Action demo 0 7 ''f01000'' [3, 5, 9]) ! Suc 0)
       <s Activation (output_sectors (Action demo 0 7 ''f01000'' [3, 5, 9]) ! 0)
   \<and> distinct [3, 5, 9 :: go_int]
   \<and> spec_ordered (output_sectors (Action demo 0 7 ''f01000'' [3, 5, 9]) ! 0)
                   (output_sectors (Action demo 0 7 ''f01000'' [3, 5, 9]) ! Suc 0)"
proof -
  have h1: "Suc 0 < length (output_sectors (Action demo 0 7 ''f01000'' [3, 5, 9]))"
    by (simp add: demo_defs)
  have h2: "distinct [3, 5, 9 :: go_int]" by simp
  have h3: "Activation (output_sectors (Action demo 0 7 ''f01000'' [3, 5, 9]) ! Suc 0)
       <s Activation (output_sectors (Action demo 0 7 ''f01000'' [3, 5, 9]) ! 0)"
    by (simp add: demo_defs)
  from C3_order [OF h1] h1 h2 h3 show ?thesis by blast
qed

subsection \<open>C4: the pre-committed path\<close>

text \<open>
  C4: for a requested sector whose committed-sector query answers nil and whose
  pre-commit query answers a record, the classifier appends a \<open>SectorInfo\<close> whose
  \<open>Activation\<close> is the pre-commit epoch and whose \<open>SealProof\<close> and \<open>SealedCID\<close> are those of
  the pre-commit record; that entry is in the sector list of the classification loop.
\<close>

theorem C4_precommit_entry:
  assumes "StateSectorGetInfo w maddr (abi_SectorNumber sector) EmptyTSK = Inr None"
    and "StateSectorPreCommitInfo w maddr (abi_SectorNumber sector) EmptyTSK
           = Inr preCommitInfo"
    and "sector \<in> set sectors"
  shows "classify_body w maddr sector st =
           st\<lparr>sectorInfos := sectorInfos st @
             [\<lparr>SectorNumber = abi_SectorNumber sector,
               Activation = PreCommitEpoch preCommitInfo,
               Ticket = None,
               SealProof = spci_SealProof (Info preCommitInfo),
               SealedCID = spci_SealedCID (Info preCommitInfo)\<rparr>]\<rparr>
         \<and> \<lparr>SectorNumber = abi_SectorNumber sector,
             Activation = PreCommitEpoch preCommitInfo,
             Ticket = None,
             SealProof = spci_SealProof (Info preCommitInfo),
             SealedCID = spci_SealedCID (Info preCommitInfo)\<rparr>
           \<in> set (sectorInfos (classify_loop w maddr sectors st0))"
proof -
  have b: "classify_body w maddr sector st =
           st\<lparr>sectorInfos := sectorInfos st @
             [\<lparr>SectorNumber = abi_SectorNumber sector,
               Activation = PreCommitEpoch preCommitInfo,
               Ticket = None,
               SealProof = spci_SealProof (Info preCommitInfo),
               SealedCID = spci_SealedCID (Info preCommitInfo)\<rparr>]\<rparr>" for st
    using assms(1,2) by (simp add: classify_body_def)
  from classify_loop_mem [OF assms(3) b] b show ?thesis by simp
qed

theorem C4_precommit_entry_witness:
  "StateSectorGetInfo demo ''f01000'' (abi_SectorNumber 3) EmptyTSK = Inr None
   \<and> StateSectorPreCommitInfo demo ''f01000'' (abi_SectorNumber 3) EmptyTSK
       = Inr \<lparr>Info = \<lparr>spci_SealProof = 8, spci_SealedCID = ''bagboea4b5abc3''\<rparr>,
               PreCommitEpoch = 150\<rparr>
   \<and> classify_loop demo ''f01000'' [5, 3] init_locals
       = init_locals\<lparr>sectorInfos :=
           [\<lparr>SectorNumber = 5, Activation = 200, Ticket = None, SealProof = 8,
              SealedCID = ''bagboea4b5abc5''\<rparr>,
            \<lparr>SectorNumber = 3, Activation = 150, Ticket = None, SealProof = 8,
              SealedCID = ''bagboea4b5abc3''\<rparr>]\<rparr>
   \<and> classify_body demo ''f01000'' 3 init_locals
       = init_locals\<lparr>sectorInfos :=
           [\<lparr>SectorNumber = 3, Activation = 150, Ticket = None, SealProof = 8,
              SealedCID = ''bagboea4b5abc3''\<rparr>]\<rparr>
   \<and> \<lparr>SectorNumber = 3, Activation = 150, Ticket = None, SealProof = 8,
       SealedCID = ''bagboea4b5abc3''\<rparr>
     \<in> set (sectorInfos (classify_loop demo ''f01000'' [5, 3] init_locals))"
proof -
  have h1: "StateSectorGetInfo demo ''f01000'' (abi_SectorNumber 3) EmptyTSK = Inr None"
    by (simp add: demo_defs)
  have h2: "StateSectorPreCommitInfo demo ''f01000'' (abi_SectorNumber 3) EmptyTSK
       = Inr \<lparr>Info = \<lparr>spci_SealProof = 8, spci_SealedCID = ''bagboea4b5abc3''\<rparr>,
               PreCommitEpoch = 150\<rparr>"
    by (simp add: demo_defs)
  have h3: "(3 :: go_int) \<in> set [5, 3]" by simp
  have h4: "classify_loop demo ''f01000'' [5, 3] init_locals
       = init_locals\<lparr>sectorInfos :=
           [\<lparr>SectorNumber = 5, Activation = 200, Ticket = None, SealProof = 8,
              SealedCID = ''bagboea4b5abc5''\<rparr>,
            \<lparr>SectorNumber = 3, Activation = 150, Ticket = None, SealProof = 8,
              SealedCID = ''bagboea4b5abc3''\<rparr>]\<rparr>"
    by (simp add: demo_defs init_locals_def)
  from C4_precommit_entry [OF h1 h2 h3, of init_locals init_locals] h1 h2 h4
  show ?thesis by (simp add: abi_SectorNumber_def init_locals_def)
qed

subsection \<open>C5: the tipset walk advances before the randomness is derived\<close>

text \<open>
  C5: in an iteration of the randomness loop whose \<^verbatim>\<open>ts.Key()\<close> returns, the current
  tipset key becomes the key of the tipset returned by the lookup at the sector's
  activation epoch, the randomness is derived with that new key, and the key stays
  advanced whether the derivation fails (the sector joins the failure set and no
  ticket is stored) or succeeds (the ticket is stored).
\<close>

theorem C5_walk_state_advances:
  assumes "ChainGetTipSetByHeight w (Activation (sectorInfos st ! i)) (tsk st) = (ts, err)"
    and "TipSet_Key w ts = Some k"
  shows "\<exists>st'. ticket_body w buf i st = Ran st' \<and> tsk st' = k
           \<and> (case StateGetRandomnessFromTickets w DomainSeparationTag_SealRandomness
                      (Activation (sectorInfos st ! i)) buf k of
                 Inl err' \<Rightarrow>
                   sectorInfos st' = sectorInfos st
                   \<and> failtSectors st' = failtSectors st @ [SectorNumber (sectorInfos st ! i)]
               | Inr ticket \<Rightarrow>
                   sectorInfos st' = (sectorInfos st)[i := (sectorInfos st ! i)\<lparr>Ticket := ticket\<rparr>]
                   \<and> failtSectors st' = failtSectors st)"
  using assms
  by (cases "StateGetRandomnessFromTickets w DomainSeparationTag_SealRandomness
               (Activation (sectorInfos st ! i)) buf k")
     (simp_all add: ticket_body_def Let_def)

theorem C5_walk_state_advances_witness:
  "ChainGetTipSetByHeight demo (Activation (sectorInfos after_5 ! 1)) (tsk after_5)
     = (Some \<lparr>ts_cids = [''bafy150''], ts_height = 150\<rparr>, None)
   \<and> TipSet_Key demo (Some \<lparr>ts_cids = [''bafy150''], ts_height = 150\<rparr>) = Some [''bafy150'']
   \<and> StateGetRandomnessFromTickets demo DomainSeparationTag_SealRandomness
        (Activation (sectorInfos after_5 ! 1)) [0x43, 0x00, 0xe8, 0x07] [''bafy150'']
       = Inl (Failure ''randomness unavailable'')
   \<and> (\<exists>st'. ticket_body demo [0x43, 0x00, 0xe8, 0x07] 1 after_5 = Ran st'
          \<and> tsk st' = [''bafy150''] \<and> sectorInfos st' = sectorInfos after_5
          \<and> failtSectors st' = [3])"
proof -
  have h1: "ChainGetTipSetByHeight demo (Activation (sectorInfos after_5 ! 1)) (tsk after_5)
     = (Some \<lparr>ts_cids = [''bafy150''], ts_height = 150\<rparr>, None)"
    by (simp add: demo_defs after_5_def)
  have h2: "TipSet_Key demo (Some \<lparr>ts_cids = [''bafy150''], ts_height = 150\<rparr>)
     = Some [''bafy150'']"
    by (simp add: demo_defs)
  have h3: "StateGetRandomnessFromTickets demo DomainSeparationTag_SealRandomness
        (Activation (sectorInfos after_5 ! 1)) [0x43, 0x00, 0xe8, 0x07] [''bafy150'']
       = Inl (Failure ''randomness unavailable'')"
    by (simp add: demo_defs after_5_def)
  from C5_walk_state_advances [OF h1 h2, of "[0x43, 0x00, 0xe8, 0x07]"] h1 h2 h3
  show ?thesis by (simp add: after_5_def)
qed

subsection \<open>C6: a failed randomness derivation touches one sector only\<close>

text \<open>
  C6: let the randomness loop over \<open>n\<close> sectors reach the sector \<open>S\<close> at index \<open>i\<close>, and
  let the randomness derivation for \<open>S\<close> fail.  Then the iteration for \<open>S\<close> changes only
  the tipset key, the log and the failure set, to which it appends the number of \<open>S\<close>:
  the slice of sectors, hence the \<open>Ticket\<close> of \<open>S\<close> and of every other sector, is left as
  it was.  When the loop ends, the \<open>Ticket\<close> of \<open>S\<close> is still the one it had when the
  loop started (absent, as the classifier builds it), and the number of \<open>S\<close> is in the
  failure set.
\<close>

theorem C6_failure_is_local:
  assumes "i < n"
    and "ticket_loop w buf [0..<i] st0 = Ran st"
    and "ChainGetTipSetByHeight w (Activation (sectorInfos st ! i)) (tsk st) = (ts, err)"
    and "TipSet_Key w ts = Some k"
    and "StateGetRandomnessFromTickets w DomainSeparationTag_SealRandomness
           (Activation (sectorInfos st ! i)) buf k = Inl e"
    and "ticket_loop w buf [0..<n] st0 = Ran st''"
  shows "ticket_body w buf i st =
           Ran (st\<lparr>tsk := k,
                    logged := logged st @ [Log_Randomness (SectorNumber (sectorInfos st ! i)) e],
                    failtSectors := failtSectors st @ [SectorNumber (sectorInfos st ! i)]\<rparr>)
         \<and> Ticket (sectorInfos st'' ! i) = Ticket (sectorInfos st0 ! i)
         \<and> SectorNumber (sectorInfos st ! i) \<in> set (failtSectors st'')"
proof -
  let ?mid = "st\<lparr>tsk := k,
                    logged := logged st @ [Log_Randomness (SectorNumber (sectorInfos st ! i)) e],
                    failtSectors := failtSectors st @ [SectorNumber (sectorInfos st ! i)]\<rparr>"
  have body: "ticket_body w buf i st = Ran ?mid"
    using assms(3,4,5) by (simp add: ticket_body_def Let_def)
  have split: "[0..<n] = [0..<i] @ i # [Suc i..<n]"
    using assms(1) by (metis less_imp_le_nat upt_add_eq_append upt_conv_Cons le_add_diff_inverse zero_le add_0)
  have rest: "ticket_loop w buf [Suc i..<n] ?mid = Ran st''"
    using assms(6) assms(2) body by (simp add: split ticket_loop_append)
  from ticket_loop_frame [OF assms(2)] have a: "sectorInfos st ! i = sectorInfos st0 ! i"
    by simp
  from ticket_loop_frame [OF rest] have b: "sectorInfos st'' ! i = sectorInfos st ! i"
    and c: "\<exists>more. failtSectors st'' = (failtSectors st @ [SectorNumber (sectorInfos st ! i)]) @ more"
    by simp_all
  from c have "SectorNumber (sectorInfos st ! i) \<in> set (failtSectors st'')" by auto
  with body a b show ?thesis by simp
qed

theorem C6_failure_is_local_witness:
  "(1 :: nat) < 2
   \<and> ticket_loop demo [0x43, 0x00, 0xe8, 0x07] [0..<1] before_5 = Ran after_5
   \<and> ChainGetTipSetByHeight demo (Activation (sectorInfos after_5 ! 1)) (tsk after_5)
       = (Some \<lparr>ts_cids = [''bafy150''], ts_height = 150\<rparr>, None)
   \<and> TipSet_Key demo (Some \<lparr>ts_cids = [''bafy150''], ts_height = 150\<rparr>) = Some [''bafy150'']
   \<and> StateGetRandomnessFromTickets demo DomainSeparationTag_SealRandomness
        (Activation (sectorInfos after_5 ! 1)) [0x43, 0x00, 0xe8, 0x07] [''bafy150'']
       = Inl (Failure ''randomness unavailable'')
   \<and> ticket_loop demo [0x43, 0x00, 0xe8, 0x07] [0..<2] before_5
       = Ran (after_5\<lparr>tsk := [''bafy150''],
               logged := [Log_Randomness 3 (Failure ''randomness unavailable'')],
               failtSectors := [3]\<rparr>)
   \<and> ticket_body demo [0x43, 0x00, 0xe8, 0x07] 1 after_5
       = Ran (after_5\<lparr>tsk := [''bafy150''],
               logged := [Log_Randomness 3 (Failure ''randomness unavailable'')],
               failtSectors := [3]\<rparr>)
   \<and> Ticket (sectorInfos (after_5\<lparr>tsk := [''bafy150''],
               logged := [Log_Randomness 3 (Failure ''randomness unavailable'')],
               failtSectors := [3]\<rparr>) ! 1) = None
   \<and> (3 :: uint64) \<in> set (failtSectors (after_5\<lparr>tsk := [''bafy150''],
               logged := [Log_Randomness 3 (Failure ''randomness unavailable'')],
               failtSectors := [3]\<rparr>))"
proof -
  have h1: "(1 :: nat) < 2" by simp
  have h2: "ticket_loop demo [0x43, 0x00, 0xe8, 0x07] [0..<1] before_5 = Ran after_5"
    by (simp add: demo_defs before_5_def after_5_def)
  have h3: "ChainGetTipSetByHeight demo (Activation (sectorInfos after_5 ! 1)) (tsk after_5)
       = (Some \<lparr>ts_cids = [''bafy150''], ts_height = 150\<rparr>, None)"
    by (simp add: demo_defs after_5_def)
  have h4: "TipSet_Key demo (Some \<lparr>ts_cids = [''bafy150''], ts_height = 150\<rparr>)
       = Some [''bafy150'']"
    by (simp add: demo_defs)
  have h5: "StateGetRandomnessFromTickets demo DomainSeparationTag_SealRandomness
        (Activation (sectorInfos after_5 ! 1)) [0x43, 0x00, 0xe8, 0x07] [''bafy150'']
       = Inl (Failure ''randomness unavailable'')"
    by (simp add: demo_defs after_5_def)
  have h6: "ticket_loop demo [0x43, 0x00, 0xe8, 0x07] [0..<2] before_5
       = Ran (after_5\<lparr>tsk := [''bafy150''],
               logged := [Log_Randomness 3 (Failure ''randomness unavailable'')],
               failtSectors := [3]\<rparr>)"
    by (simp add: demo_defs before_5_def after_5_def)
  from C6_failure_is_local [OF h1 h2 h3 h4 h5 h6] h1 h2 h3 h4 h5 h6
  show ?thesis by (simp add: after_5_def before_5_def)
qed

subsection \<open>C7: the record is produced whatever happens to the sectors\<close>

text \<open>
  The claim C7 as stated fails: a record that was assembled is not written when the
  file cannot be written (lines 132 to 134), although the identity was resolved and
  the sector-size query was answered.
\<close>

theorem C7_not_written_counterexample:
  "NewFromString demo_readonly ''f01000'' = Inr ''f01000''
   \<and> GetFullNodeAPI demo_readonly = None
   \<and> StateMinerInfo demo_readonly ''f01000'' EmptyTSK = Inr \<lparr>mi_SectorSize = 34359738368\<rparr>
   \<and> written_of (Action demo_readonly 0 7 ''f01000'' [5]) = None"
  by (simp add: demo_defs)

text \<open>
  C7, amended: when the identity resolution, the connection to the node and the
  sector-size query succeed (and, as for every resolved address and the nil-safe
  \<^verbatim>\<open>Key\<close> of the library, the address is encoded and \<^verbatim>\<open>ts.Key()\<close> returns), the command
  returns with the record of miner, sector size and sector list assembled from what
  the loops gathered, whatever the outcomes of the per-sector queries: the list is
  empty when every requested sector fails classification, and every ticket is absent
  when every randomness derivation fails.  The record is written exactly when its
  serialisation, the expansion of the file name and the write succeed.
\<close>

theorem C7_record_despite_failures:
  assumes "NewFromString w miner = Inr maddr" and "GetFullNodeAPI w = None"
    and "StateMinerInfo w maddr EmptyTSK = Inr mi"
    and "MarshalCBOR w maddr = Inr buf"
    and "\<forall>ts. TipSet_Key w ts \<noteq> None"
  shows "\<exists>r eff st.
           gathered w maddr buf sectors = Ran st
         \<and> Action w t0 t1 miner sectors = Return r eff
         \<and> assembled eff = Some \<lparr>Miner = maddr, SectorSize = mi_SectorSize mi,
                                  SectorInfos = sectorInfos st\<rparr>
         \<and> written eff =
             (case MarshalIndent w \<lparr>Miner = maddr, SectorSize = mi_SectorSize mi,
                                     SectorInfos = sectorInfos st\<rparr> of
                Inl e \<Rightarrow> None
              | Inr out \<Rightarrow>
                  (case homedir_Expand w
                          (''sectors-recovery-'' @ address_String w maddr @ ''.json'') of
                     Inl e \<Rightarrow> None
                   | Inr ofile \<Rightarrow>
                       (case WriteFile w ofile out of
                          Some e \<Rightarrow> None
                        | None \<Rightarrow> Some (ofile, out))))
         \<and> ((\<forall>sector \<in> set sectors. \<not> classified w maddr (abi_SectorNumber sector))
              \<longrightarrow> sectorInfos st = [])
         \<and> ((\<forall>tag h b k. isl (StateGetRandomnessFromTickets w tag h b k))
              \<longrightarrow> (\<forall>s \<in> set (sectorInfos st). Ticket s = None))"
proof -
  let ?st1 = "classify_loop w maddr sectors init_locals"
  from ticket_loop_total [OF assms(5)] obtain st where
    g: "gathered w maddr buf sectors = Ran st"
    unfolding gathered_def by blast
  note A = Action_unfold [OF assms(1,2,3,4) g, of t0 t1]
  from emit_effects [of w t0 t1 maddr mi st] obtain r eff where
    e: "emit w t0 t1 maddr mi st = Return r eff"
    and a: "assembled eff = Some \<lparr>Miner = maddr, SectorSize = mi_SectorSize mi,
                              SectorInfos = sectorInfos st\<rparr>"
    and wr: "written eff =
         (case MarshalIndent w \<lparr>Miner = maddr, SectorSize = mi_SectorSize mi,
                                 SectorInfos = sectorInfos st\<rparr> of
            Inl e \<Rightarrow> None
          | Inr out \<Rightarrow>
              (case homedir_Expand w (''sectors-recovery-'' @ address_String w maddr @ ''.json'') of
                 Inl e \<Rightarrow> None
               | Inr ofile \<Rightarrow>
                   (case WriteFile w ofile out of
                      Some e \<Rightarrow> None
                    | None \<Rightarrow> Some (ofile, out))))"
    by blast
  have empty: "sectorInfos st = []"
    if "\<forall>sector \<in> set sectors. \<not> classified w maddr (abi_SectorNumber sector)"
  proof -
    from that have "filter (classified w maddr) (map abi_SectorNumber sectors) = []"
      by (simp add: filter_empty_conv)
    with gathered_numbers [OF g] show ?thesis by simp
  qed
  have absent: "\<forall>s \<in> set (sectorInfos st). Ticket s = None"
    if f: "\<forall>tag h b k. isl (StateGetRandomnessFromTickets w tag h b k)"
  proof -
    from ticket_loop_all_fail [OF f g [unfolded gathered_def]]
    have "sectorInfos st = sort_Sort (sectorInfos ?st1)" by simp
    then have "set (sectorInfos st) = set (sectorInfos ?st1)"
      by (metis mset_sort_Sort set_mset_mset)
    moreover have "\<forall>s \<in> set (sectorInfos ?st1). Ticket s = None"
      by (rule classify_loop_tickets) (simp add: init_locals_def)
    ultimately show ?thesis by simp
  qed
  from g A e a wr empty absent show ?thesis by auto
qed

theorem C7_record_despite_failures_witness:
  "NewFromString demo ''f01000'' = Inr ''f01000''
   \<and> GetFullNodeAPI demo = None
   \<and> StateMinerInfo demo ''f01000'' EmptyTSK = Inr \<lparr>mi_SectorSize = 34359738368\<rparr>
   \<and> MarshalCBOR demo ''f01000'' = Inr [0x43, 0x00, 0xe8, 0x07]
   \<and> (\<forall>ts. TipSet_Key demo ts \<noteq> None)
   \<and> Action demo 0 7 ''f01000'' [9, 4] =
       Return None
         \<lparr>stderr = [Log_StateSectorGetInfo 9 (Failure ''sector not found''),
                    Log_StateSectorPreCommitInfo 4 (Failure ''precommit not found'')],
          assembled = Some \<lparr>Miner = ''f01000'', SectorSize = 34359738368, SectorInfos = []\<rparr>,
          written = Some (''sectors-recovery-f01000.json'', []),
          stdout = Some (0, [9, 4], 7)\<rparr>
   \<and> Action demo_no_randomness 0 7 ''f01000'' [3, 5] =
       Return None
         \<lparr>stderr = [Log_Randomness 5 (Failure ''randomness unavailable''),
                    Log_Randomness 3 (Failure ''randomness unavailable'')],
          assembled = Some \<lparr>Miner = ''f01000'', SectorSize = 34359738368,
            SectorInfos = [\<lparr>SectorNumber = 5, Activation = 200, Ticket = None,
                             SealProof = 8, SealedCID = ''bagboea4b5abc5''\<rparr>,
                           \<lparr>SectorNumber = 3, Activation = 150, Ticket = None,
                             SealProof = 8, SealedCID = ''bagboea4b5abc3''\<rparr>]\<rparr>,
          written = Some (''sectors-recovery-f01000.json'', [5, 200, 0, 3, 150, 0]),
          stdout = Some (2, [5, 3], 7)\<rparr>"
proof -
  have h1: "NewFromString demo ''f01000'' = Inr ''f01000''"
    and h2: "GetFullNodeAPI demo = None"
    and h3: "StateMinerInfo demo ''f01000'' EmptyTSK = Inr \<lparr>mi_SectorSize = 34359738368\<rparr>"
    and h4: "MarshalCBOR demo ''f01000'' = Inr [0x43, 0x00, 0xe8, 0x07]"
    by (simp_all add: demo_defs)
  have h5: "\<forall>ts. TipSet_Key demo ts \<noteq> None"
    by (simp add: demo_defs split: option.splits)
  have n1: "NewFromString demo_no_randomness ''f01000'' = Inr ''f01000''"
    and n2: "GetFullNodeAPI demo_no_randomness = None"
    and n3: "StateMinerInfo demo_no_randomness ''f01000'' EmptyTSK
               = Inr \<lparr>mi_SectorSize = 34359738368\<rparr>"
    and n4: "MarshalCBOR demo_no_randomness ''f01000'' = Inr [0x43, 0x00, 0xe8, 0x07]"
    by (simp_all add: demo_defs)
  have n5: "\<forall>ts. TipSet_Key demo_no_randomness ts \<noteq> None"
    by (simp add: demo_defs split: option.splits)
  from C7_record_despite_failures [OF h1 h2 h3 h4 h5, of "[9, 4]" 0 7]
    C7_record_despite_failures [OF n1 n2 n3 n4 n5, of "[3, 5]" 0 7]
    h1 h2 h3 h4 h5
  show ?thesis by (simp add: demo_defs)
qed

subsection \<open>C8: determinism\<close>

text \<open>
  C8: the command is a function of the miner string, the sector list and the answers
  of its collaborators.  The only other inputs of a run are the two readings of the
  clock, and the record assembled and the file written do not depend on them; the
  record does not depend on the file system either.  Two runs with the same miner
  string, the same sector list and the same answers thus assemble the same record,
  field by field, and write the same bytes.
\<close>

theorem C8_deterministic:
  "assembled_of (Action (w\<lparr>homedir_Expand := h, WriteFile := f\<rparr>) t0' t1' miner sectors)
     = assembled_of (Action w t0 t1 miner sectors)
   \<and> written_of (Action w t0' t1' miner sectors) = written_of (Action w t0 t1 miner sectors)"
  by (simp add: Action_def assembled_emit written_emit classify_loop_fs ticket_loop_fs Let_def
        assembled_of_def [of Crash] assembled_of_def [of "Return r e" for r e]
        written_of_def [of Crash] written_of_def [of "Return r e" for r e]
        split: sum.splits option.splits run.splits)

subsection \<open>C9: the exit status\<close>




subsection \<open>C10: no presence check in the pre-committed branch\<close>

text \<open>
  C10: for a sector whose committed-sector query answers nil, the pre-committed branch
  checks the error of the pre-commit query and nothing else.  Every answer without
  error, whatever record it carries, yields a \<open>SectorInfo\<close> built from the fields of
  that record: the record is returned by value, so an empty answer is the record of
  zero values, and its fields are read like any others instead of the sector being
  recorded as failed.  The sector is then in the sector list of the classification
  loop and not in its failure set.  The failure set grows in this branch only when the
  pre-commit query returned an error.
\<close>

theorem C10_precommit_branch:
  assumes "StateSectorGetInfo w maddr (abi_SectorNumber sector) EmptyTSK = Inr None"
  shows "(\<forall>p. StateSectorPreCommitInfo w maddr (abi_SectorNumber sector) EmptyTSK = Inr p
            \<longrightarrow> classify_body w maddr sector st =
                  st\<lparr>sectorInfos := sectorInfos st @
                    [\<lparr>SectorNumber = abi_SectorNumber sector,
                      Activation = PreCommitEpoch p,
                      Ticket = None,
                      SealProof = spci_SealProof (Info p),
                      SealedCID = spci_SealedCID (Info p)\<rparr>]\<rparr>
                \<and> (sector \<in> set sectors \<longrightarrow>
                     \<lparr>SectorNumber = abi_SectorNumber sector,
                      Activation = PreCommitEpoch p,
                      Ticket = None,
                      SealProof = spci_SealProof (Info p),
                      SealedCID = spci_SealedCID (Info p)\<rparr>
                       \<in> set (sectorInfos (classify_loop w maddr sectors init_locals))
                     \<and> abi_SectorNumber sector
                       \<notin> set (failtSectors (classify_loop w maddr sectors init_locals))))
       \<and> (\<forall>err. StateSectorPreCommitInfo w maddr (abi_SectorNumber sector) EmptyTSK = Inl err
            \<longrightarrow> classify_body w maddr sector st =
                  st\<lparr>logged := logged st @ [Log_StateSectorPreCommitInfo sector err],
                      failtSectors := failtSectors st @ [abi_SectorNumber sector]\<rparr>)
       \<and> (failtSectors (classify_body w maddr sector st) \<noteq> failtSectors st
            \<longrightarrow> (\<exists>err. StateSectorPreCommitInfo w maddr (abi_SectorNumber sector) EmptyTSK
                          = Inl err))"
proof (intro conjI allI impI)
  fix p
  assume p: "StateSectorPreCommitInfo w maddr (abi_SectorNumber sector) EmptyTSK = Inr p"
  show b: "classify_body w maddr sector st =
                  st\<lparr>sectorInfos := sectorInfos st @
                    [\<lparr>SectorNumber = abi_SectorNumber sector,
                      Activation = PreCommitEpoch p,
                      Ticket = None,
                      SealProof = spci_SealProof (Info p),
                      SealedCID = spci_SealedCID (Info p)\<rparr>]\<rparr>" for st
    using assms p by (simp add: classify_body_def)
  assume m: "sector \<in> set sectors"
  from classify_loop_mem [OF m b]
  show "\<lparr>SectorNumber = abi_SectorNumber sector,
                      Activation = PreCommitEpoch p,
                      Ticket = None,
                      SealProof = spci_SealProof (Info p),
                      SealedCID = spci_SealedCID (Info p)\<rparr>
                       \<in> set (sectorInfos (classify_loop w maddr sectors init_locals))" .
  from assms p have "classified w maddr (abi_SectorNumber sector)"
    by (simp add: classified_def)
  then show "abi_SectorNumber sector
                       \<notin> set (failtSectors (classify_loop w maddr sectors init_locals))"
    by (simp add: classify_loop_failures init_locals_def)
next
  fix err
  assume "StateSectorPreCommitInfo w maddr (abi_SectorNumber sector) EmptyTSK = Inl err"
  with assms show "classify_body w maddr sector st =
                  st\<lparr>logged := logged st @ [Log_StateSectorPreCommitInfo sector err],
                      failtSectors := failtSectors st @ [abi_SectorNumber sector]\<rparr>"
    by (simp add: classify_body_def)
next
  assume "failtSectors (classify_body w maddr sector st) \<noteq> failtSectors st"
  with assms show "\<exists>err. StateSectorPreCommitInfo w maddr (abi_SectorNumber sector) EmptyTSK
                          = Inl err"
    by (cases "StateSectorPreCommitInfo w maddr (abi_SectorNumber sector) EmptyTSK")
       (simp_all add: classify_body_def)
qed

theorem C10_precommit_branch_witness:
  "StateSectorGetInfo demo ''f01000'' (abi_SectorNumber 3) EmptyTSK = Inr None
   \<and> classify_body demo ''f01000'' 3 init_locals
       = init_locals\<lparr>sectorInfos :=
           [\<lparr>SectorNumber = 3, Activation = 150, Ticket = None, SealProof = 8,
              SealedCID = ''bagboea4b5abc3''\<rparr>]\<rparr>
   \<and> StateSectorGetInfo demo ''f01000'' (abi_SectorNumber 7) EmptyTSK = Inr None
   \<and> StateSectorPreCommitInfo demo ''f01000'' (abi_SectorNumber 7) EmptyTSK
       = Inr \<lparr>Info = \<lparr>spci_SealProof = 0, spci_SealedCID = []\<rparr>, PreCommitEpoch = 0\<rparr>
   \<and> classify_body demo ''f01000'' 7 init_locals
       = init_locals\<lparr>sectorInfos :=
           [\<lparr>SectorNumber = 7, Activation = 0, Ticket = None, SealProof = 0,
              SealedCID = []\<rparr>]\<rparr>
   \<and> \<lparr>SectorNumber = 7, Activation = 0, Ticket = None, SealProof = 0, SealedCID = []\<rparr>
       \<in> set (sectorInfos (classify_loop demo ''f01000'' [5, 7, 3] init_locals))
   \<and> (7 :: uint64) \<notin> set (failtSectors (classify_loop demo ''f01000'' [5, 7, 3] init_locals))
   \<and> Action demo 0 7 ''f01000'' [7] =
       Return None
         \<lparr>stderr = [],
          assembled = Some \<lparr>Miner = ''f01000'', SectorSize = 34359738368,
            SectorInfos = [\<lparr>SectorNumber = 7, Activation = 0, Ticket = Some [0xcc],
                             SealProof = 0, SealedCID = []\<rparr>]\<rparr>,
          written = Some (''sectors-recovery-f01000.json'', [7, 0, 1, 0xcc]),
          stdout = Some (1, [], 7)\<rparr>
   \<and> StateSectorGetInfo demo ''f01000'' (abi_SectorNumber 4) EmptyTSK = Inr None
   \<and> classify_body demo ''f01000'' 4 init_locals
       = init_locals\<lparr>
           logged := [Log_StateSectorPreCommitInfo 4 (Failure ''precommit not found'')],
           failtSectors := [4]\<rparr>
   \<and> (\<exists>err. StateSectorPreCommitInfo demo ''f01000'' (abi_SectorNumber 4) EmptyTSK = Inl err)"
proof -
  have g3: "StateSectorGetInfo demo ''f01000'' (abi_SectorNumber 3) EmptyTSK = Inr None"
    and g7: "StateSectorGetInfo demo ''f01000'' (abi_SectorNumber 7) EmptyTSK = Inr None"
    and g4: "StateSectorGetInfo demo ''f01000'' (abi_SectorNumber 4) EmptyTSK = Inr None"
    by (simp_all add: demo_defs)
  have p3: "StateSectorPreCommitInfo demo ''f01000'' (abi_SectorNumber 3) EmptyTSK
       = Inr \<lparr>Info = \<lparr>spci_SealProof = 8, spci_SealedCID = ''bagboea4b5abc3''\<rparr>,
               PreCommitEpoch = 150\<rparr>"
    and p7: "StateSectorPreCommitInfo demo ''f01000'' (abi_SectorNumber 7) EmptyTSK
       = Inr \<lparr>Info = \<lparr>spci_SealProof = 0, spci_SealedCID = []\<rparr>, PreCommitEpoch = 0\<rparr>"
    and p4: "StateSectorPreCommitInfo demo ''f01000'' (abi_SectorNumber 4) EmptyTSK
       = Inl (Failure ''precommit not found'')"
    by (simp_all add: demo_defs)
  have m7: "(7 :: go_int) \<in> set [5, 7, 3]" by simp
  have a7: "Action demo 0 7 ''f01000'' [7] =
       Return None
         \<lparr>stderr = [],
          assembled = Some \<lparr>Miner = ''f01000'', SectorSize = 34359738368,
            SectorInfos = [\<lparr>SectorNumber = 7, Activation = 0, Ticket = Some [0xcc],
                             SealProof = 0, SealedCID = []\<rparr>]\<rparr>,
          written = Some (''sectors-recovery-f01000.json'', [7, 0, 1, 0xcc]),
          stdout = Some (1, [], 7)\<rparr>"
    by (simp add: demo_defs)
  note t3 = C10_precommit_branch [OF g3, of init_locals "[3]", THEN conjunct1, rule_format,
      OF p3, THEN conjunct1]
  note t7 = C10_precommit_branch [OF g7, of init_locals "[5, 7, 3]", THEN conjunct1,
      rule_format, OF p7]
  note t4 = C10_precommit_branch [OF g4, of init_locals "[4]", THEN conjunct2, THEN conjunct1,
      rule_format, OF p4]
  have f4: "failtSectors (classify_body demo ''f01000'' 4 init_locals)
              \<noteq> failtSectors init_locals"
    unfolding t4 by (simp add: init_locals_def)
  note e4 = C10_precommit_branch [OF g4, of init_locals "[4]", THEN conjunct2, THEN conjunct2,
      rule_format, OF f4]
  from t7 m7 have l7: "\<lparr>SectorNumber = abi_SectorNumber 7, Activation = 0, Ticket = None,
                         SealProof = 0, SealedCID = []\<rparr>
       \<in> set (sectorInfos (classify_loop demo ''f01000'' [5, 7, 3] init_locals))
     \<and> abi_SectorNumber 7 \<notin> set (failtSectors (classify_loop demo ''f01000'' [5, 7, 3] init_locals))"
    by simp
  from t3 t7 t4 e4 l7 g3 g7 g4 p7 a7 show ?thesis
    by (simp add: abi_SectorNumber_def init_locals_def)
qed

end
